theory Spec2Isabelle
  imports Main "HOL-Library.AList"
begin

section \<open>Data model\<close>

text \<open>
  The orchestration layer of the repository: \<^verbatim>\<open>AntboxService\<close> (the node orchestrator with
  its permission guard), \<^verbatim>\<open>ActionService.run\<close> of the action service class under src/, and
  the \<^verbatim>\<open>InMemoryNodeRepository\<close>. Field names follow the source; where two records of the
  source share a field name the later record carries a one-letter prefix
  (\<open>n_group\<close> of a node, \<open>p_group\<close> of a permission set, \<open>m_\<dots>\<close> for the optional
  fields of a \<^verbatim>\<open>Partial<Node>\<close>, \<open>a_\<dots>\<close> for an action).
\<close>

datatype Permission = Read | Write | Export

datatype AntboxError =
    NodeNotFoundError string
  | ForbiddenError
  | BadRequestError string
  | UnknownError string

record UserPrincipal =
  email :: string
  group :: string
  groups :: "string list"
  isAdmin :: bool

record AuthContextProvider =
  principal :: UserPrincipal

record Permissions =
  p_group :: "Permission list"
  p_authenticated :: "Permission list"
  p_anonymous :: "Permission list"

text \<open>
  Modelled from the spec: the class \<^verbatim>\<open>Node\<close> is not under src/. Spec section 3 gives a node
  the fields below and a \<open>variant\<close> among File, Folder, Metanode and SmartFolder.
\<close>

datatype Variant = File | Folder | Metanode | SmartFolder

record Node =
  uuid :: string
  title :: string
  parent :: string
  owner :: string
  n_group :: string
  permissions :: Permissions
  variant :: Variant

text \<open>\<^verbatim>\<open>Partial<Node>\<close>: every field may be absent (\<open>None\<close> is JavaScript's \<^verbatim>\<open>undefined\<close>).\<close>

record Metadata =
  m_uuid :: "string option"
  m_title :: "string option"
  m_parent :: "string option"
  m_owner :: "string option"
  m_group :: "string option"
  m_permissions :: "Permissions option"
  m_variant :: "Variant option"

type_synonym FileContent = string

datatype DomainEvent =
    NodeCreatedEvent string Node
  | NodeUpdatedEvent string string Metadata
  | NodeDeletedEvent string string
  | NodeContentUpdatedEvent string string

section \<open>Well-known constants and predicates of the domain classes\<close>

text \<open>
  Modelled from the spec: the constants and predicates of \<^verbatim>\<open>Node\<close>, \<^verbatim>\<open>User\<close>,
  \<^verbatim>\<open>AspectService\<close>, \<^verbatim>\<open>ExtService\<close> and of the \<^verbatim>\<open>ActionService\<close> revision that
  \<^verbatim>\<open>AntboxService\<close> imports are not under src/. Spec section 3: the Root and System folders
  have fixed, well-known UUIDs, \<open>ANONYMOUS\<close> is a reserved sentinel email and a principal
  carries an \<open>isAdmin\<close> flag; spec section 4.2: Actions, Aspects and Extensions are reserved
  sub-areas of the System folder. The general theorems below never unfold the values chosen
  for the constants.
\<close>

definition ROOT_FOLDER_UUID :: string where
  "ROOT_FOLDER_UUID = ''--root--''"

definition SYSTEM_FOLDER_UUID :: string where
  "SYSTEM_FOLDER_UUID = ''--system--''"

definition ACTIONS_FOLDER_UUID :: string where
  "ACTIONS_FOLDER_UUID = ''--actions--''"

definition ASPECTS_FOLDER_UUID :: string where
  "ASPECTS_FOLDER_UUID = ''--aspects--''"

definition EXT_FOLDER_UUID :: string where
  "EXT_FOLDER_UUID = ''--ext--''"

definition ANONYMOUS_USER_EMAIL :: string where
  "ANONYMOUS_USER_EMAIL = ''anonymous@antbox.io''"

definition isFolder :: "Node \<Rightarrow> bool" where
  "isFolder node = (variant node = Folder)"

definition isRootFolder :: "Node \<Rightarrow> bool" where
  "isRootFolder node = (uuid node = ROOT_FOLDER_UUID)"

definition User_isAdmin :: "UserPrincipal \<Rightarrow> bool" where
  "User_isAdmin user = isAdmin user"

text \<open>
  The three folder tests take the value the caller passes: \<^verbatim>\<open>metadata.parent!\<close> may be
  \<^verbatim>\<open>undefined\<close> at run time, which equals no UUID.
\<close>

definition ActionService_isActionsFolder :: "string option \<Rightarrow> bool" where
  "ActionService_isActionsFolder u = (u = Some ACTIONS_FOLDER_UUID)"

definition AspectService_isAspectsFolder :: "string option \<Rightarrow> bool" where
  "AspectService_isAspectsFolder u = (u = Some ASPECTS_FOLDER_UUID)"

definition ExtService_isExtensionsFolder :: "string option \<Rightarrow> bool" where
  "ExtService_isExtensionsFolder u = (u = Some EXT_FOLDER_UUID)"

text \<open>\<^verbatim>\<open>AntboxService.isSystemFolder\<close>, the static method at the end of the class.\<close>

definition isSystemFolder :: "string option \<Rightarrow> bool" where
  "isSystemFolder u =
     (u = Some SYSTEM_FOLDER_UUID \<or>
      AspectService_isAspectsFolder u \<or>
      ActionService_isActionsFolder u \<or>
      ExtService_isExtensionsFolder u)"

section \<open>The permission guard\<close>

text \<open>
  \<^verbatim>\<open>AntboxService.#assertPermission\<close>: \<open>Inr ()\<close> is \<^verbatim>\<open>right(undefined)\<close>,
  \<open>Inl ForbiddenError\<close> is \<^verbatim>\<open>left(new ForbiddenError())\<close>. \<^verbatim>\<open>Array.includes\<close> is list
  membership; \<open>user\<close> is the source's local \<^verbatim>\<open>principal\<close>.
\<close>

definition assertPermission ::
  "AuthContextProvider \<Rightarrow> Node \<Rightarrow> Permission \<Rightarrow> AntboxError + unit" where
  "assertPermission authCtx node permission =
     (let user = principal authCtx in
      if \<not> isFolder node then Inr ()
      else if User_isAdmin user then Inr ()
      else if isRootFolder node \<and> permission = Read then Inr ()
      else if isRootFolder node \<and> \<not> User_isAdmin user then Inl ForbiddenError
      else if owner node = email (principal authCtx) then Inr ()
      else if permission \<in> set (p_anonymous (permissions node)) then Inr ()
      else if n_group node \<in> set (groups user) \<and>
              permission \<in> set (p_group (permissions node)) then Inr ()
      else if email user \<noteq> ANONYMOUS_USER_EMAIL \<and>
              permission \<in> set (p_authenticated (permissions node)) then Inr ()
      else Inl ForbiddenError)"

definition assertCanRead :: "AuthContextProvider \<Rightarrow> Node \<Rightarrow> AntboxError + unit" where
  "assertCanRead authCtx folder = assertPermission authCtx folder Read"

definition assertCanWrite :: "AuthContextProvider \<Rightarrow> Node \<Rightarrow> AntboxError + unit" where
  "assertCanWrite authCtx folder = assertPermission authCtx folder Write"

subsection \<open>The ladder of spec section 4.1\<close>

text \<open>
  The specification's side of the refinement: nine rules, each either deciding or passing,
  evaluated in order with the first match winning. This definition follows the words of the
  specification, not the code.
\<close>

datatype Decision = Granted | Denied

type_synonym Rule = "UserPrincipal \<Rightarrow> Node \<Rightarrow> Permission \<Rightarrow> Decision option"

definition rule_not_folder :: Rule where
  "rule_not_folder p node cap = (if \<not> isFolder node then Some Granted else None)"

definition rule_admin :: Rule where
  "rule_admin p node cap = (if isAdmin p then Some Granted else None)"

definition rule_root_read :: Rule where
  "rule_root_read p node cap =
     (if isRootFolder node \<and> cap = Read then Some Granted else None)"

definition rule_root_other :: Rule where
  "rule_root_other p node cap =
     (if isRootFolder node \<and> \<not> isAdmin p then Some Denied else None)"

definition rule_owner :: Rule where
  "rule_owner p node cap = (if email p = owner node then Some Granted else None)"

definition rule_anonymous :: Rule where
  "rule_anonymous p node cap =
     (if cap \<in> set (p_anonymous (permissions node)) then Some Granted else None)"

definition rule_group :: Rule where
  "rule_group p node cap =
     (if n_group node \<in> set (groups p) \<and> cap \<in> set (p_group (permissions node))
      then Some Granted else None)"

definition rule_authenticated :: Rule where
  "rule_authenticated p node cap =
     (if email p \<noteq> ANONYMOUS_USER_EMAIL \<and> cap \<in> set (p_authenticated (permissions node))
      then Some Granted else None)"

definition rule_otherwise :: Rule where
  "rule_otherwise p node cap = Some Denied"

definition ladder :: "Rule list" where
  "ladder =
     [rule_not_folder, rule_admin, rule_root_read, rule_root_other, rule_owner,
      rule_anonymous, rule_group, rule_authenticated, rule_otherwise]"

fun first_match :: "Rule list \<Rightarrow> UserPrincipal \<Rightarrow> Node \<Rightarrow> Permission \<Rightarrow> Decision option" where
  "first_match [] p node cap = None"
| "first_match (r # rs) p node cap =
     (case r p node cap of Some d \<Rightarrow> Some d | None \<Rightarrow> first_match rs p node cap)"

definition evaluate :: "UserPrincipal \<Rightarrow> Node \<Rightarrow> Permission \<Rightarrow> Decision" where
  "evaluate p node cap =
     (case first_match ladder p node cap of Some d \<Rightarrow> d | None \<Rightarrow> Denied)"

section \<open>The node orchestrator\<close>

text \<open>
  The class \<^verbatim>\<open>NodeService\<close> and the \<^verbatim>\<open>createOrReplace\<close> methods of the action, aspect
  and extension services are not under src/: \<^verbatim>\<open>AntboxService\<close> only calls them. They are
  parameters of the model, functions on an arbitrary store state \<open>'st\<close>, so every theorem
  about the orchestrator holds for every node store. \<open>ns_get\<close> reads the store; the
  mutating operations return their tagged result together with the new store.
\<close>

record 'st NodeService =
  ns_get :: "string \<Rightarrow> 'st \<Rightarrow> AntboxError + Node"
  ns_createFile :: "FileContent \<Rightarrow> Metadata \<Rightarrow> 'st \<Rightarrow> (AntboxError + Node) \<times> 'st"
  ns_createMetanode :: "Metadata \<Rightarrow> 'st \<Rightarrow> (AntboxError + Node) \<times> 'st"
  ns_createFolder :: "Metadata \<Rightarrow> 'st \<Rightarrow> (AntboxError + Node) \<times> 'st"
  ns_update :: "string \<Rightarrow> Metadata \<Rightarrow> bool option \<Rightarrow> 'st \<Rightarrow> (AntboxError + unit) \<times> 'st"
  ns_updateFile :: "string \<Rightarrow> FileContent \<Rightarrow> 'st \<Rightarrow> (AntboxError + unit) \<times> 'st"
  ns_copy :: "string \<Rightarrow> string \<Rightarrow> 'st \<Rightarrow> (AntboxError + Node) \<times> 'st"
  ns_duplicate :: "string \<Rightarrow> 'st \<Rightarrow> (AntboxError + Node) \<times> 'st"
  ns_delete :: "string \<Rightarrow> 'st \<Rightarrow> (AntboxError + unit) \<times> 'st"

record 'st AntboxService =
  nodeService :: "'st NodeService"
  actionService_createOrReplace ::
    "FileContent \<Rightarrow> Metadata \<Rightarrow> 'st \<Rightarrow> (AntboxError + Node) \<times> 'st"
  aspectService_createOrReplace ::
    "FileContent \<Rightarrow> Metadata \<Rightarrow> 'st \<Rightarrow> (AntboxError + Node) \<times> 'st"
  extService_createOrReplace ::
    "FileContent \<Rightarrow> Metadata \<Rightarrow> 'st \<Rightarrow> (AntboxError + Node) \<times> 'st"

text \<open>
  What an orchestrator call can change: the node store, and the list of events handed to
  \<^verbatim>\<open>DomainEvents.notify\<close> (oldest first). The list holds the events that
  \<^verbatim>\<open>AntboxService\<close> itself publishes; what a collaborator publishes on its own account
  is outside the model, and so are the handlers subscribed to the bus, which run after the
  call.
\<close>

record 'st World =
  store :: 'st
  events :: "DomainEvent list"

definition DomainEvents_notify :: "DomainEvent \<Rightarrow> 'st World \<Rightarrow> 'st World" where
  "DomainEvents_notify ev w = w\<lparr>events := events w @ [ev]\<rparr>"

text \<open>An awaited call of a mutating store operation.\<close>

definition on_store :: "('st \<Rightarrow> 'r \<times> 'st) \<Rightarrow> 'st World \<Rightarrow> 'r \<times> 'st World" where
  "on_store f w = (case f (store w) of (r, st) \<Rightarrow> (r, w\<lparr>store := st\<rparr>))"

text \<open>
  \<^verbatim>\<open>#getFolderWithPermission\<close>. Every caller passes a string, so the default value of the
  parameter \<^verbatim>\<open>uuid\<close> is never taken.
\<close>

definition getFolderWithPermission ::
  "'st AntboxService \<Rightarrow> AuthContextProvider \<Rightarrow> string \<Rightarrow> Permission \<Rightarrow> 'st World
     \<Rightarrow> AntboxError + Node" where
  "getFolderWithPermission this auth u permission w =
     (case ns_get (nodeService this) u (store w) of
        Inl e \<Rightarrow> Inl e
      | Inr folder \<Rightarrow>
          if \<not> isFolder folder then Inl (BadRequestError ''Is not a folder'')
          else (case assertPermission auth folder permission of
                  Inl e \<Rightarrow> Inl e
                | Inr _ \<Rightarrow> Inr folder))"

text \<open>\<^verbatim>\<open>metadata.parent ?? Node.ROOT_FOLDER_UUID\<close>\<close>

definition parent_or_root :: "Metadata \<Rightarrow> string" where
  "parent_or_root metadata =
     (case m_parent metadata of None \<Rightarrow> ROOT_FOLDER_UUID | Some u \<Rightarrow> u)"

definition createFile ::
  "'st AntboxService \<Rightarrow> AuthContextProvider \<Rightarrow> FileContent \<Rightarrow> Metadata \<Rightarrow> 'st World
     \<Rightarrow> (AntboxError + Node) \<times> 'st World" where
  "createFile this authCtx file metadata w =
     (if ActionService_isActionsFolder (m_parent metadata)
      then on_store (actionService_createOrReplace this file metadata) w
      else if AspectService_isAspectsFolder (m_parent metadata)
      then on_store (aspectService_createOrReplace this file metadata) w
      else if ExtService_isExtensionsFolder (m_parent metadata)
      then on_store (extService_createOrReplace this file metadata) w
      else
        (case getFolderWithPermission this authCtx (parent_or_root metadata) Write w of
           Inl e \<Rightarrow> (Inl e, w)
         | Inr _ \<Rightarrow>
             (case on_store (ns_createFile (nodeService this) file metadata) w of
                (Inr node, w') \<Rightarrow>
                  (Inr node,
                   DomainEvents_notify (NodeCreatedEvent (email (principal authCtx)) node) w')
              | (Inl e, w') \<Rightarrow> (Inl e, w'))))"

definition createMetanode ::
  "'st AntboxService \<Rightarrow> AuthContextProvider \<Rightarrow> Metadata \<Rightarrow> 'st World
     \<Rightarrow> (AntboxError + Node) \<times> 'st World" where
  "createMetanode this authCtx metadata w =
     (case getFolderWithPermission this authCtx (parent_or_root metadata) Write w of
        Inl e \<Rightarrow> (Inl e, w)
      | Inr _ \<Rightarrow>
          (case on_store (ns_createMetanode (nodeService this) metadata) w of
             (Inr node, w') \<Rightarrow>
               (Inr node,
                DomainEvents_notify (NodeCreatedEvent (email (principal authCtx)) node) w')
           | (Inl e, w') \<Rightarrow> (Inl e, w')))"

text \<open>
  The metadata \<^verbatim>\<open>createFolder\<close> hands to the store: the caller's, with \<^verbatim>\<open>owner\<close>,
  \<^verbatim>\<open>group\<close> and \<^verbatim>\<open>permissions\<close> written after the spread of \<^verbatim>\<open>metadata\<close>.
\<close>

definition folder_metadata :: "AuthContextProvider \<Rightarrow> Node \<Rightarrow> Metadata \<Rightarrow> Metadata" where
  "folder_metadata authCtx parentFolder metadata =
     metadata\<lparr>m_owner := Some (email (principal authCtx)),
              m_group := Some (group (principal authCtx)),
              m_permissions := Some (permissions parentFolder)\<rparr>"

definition createFolder ::
  "'st AntboxService \<Rightarrow> AuthContextProvider \<Rightarrow> Metadata \<Rightarrow> 'st World
     \<Rightarrow> (AntboxError + Node) \<times> 'st World" where
  "createFolder this authCtx metadata w =
     (if isSystemFolder (m_parent metadata)
      then (Inl (BadRequestError ''Cannot create folders in system folder''), w)
      else
        (case getFolderWithPermission this authCtx (parent_or_root metadata) Write w of
           Inl e \<Rightarrow> (Inl e, w)
         | Inr parentFolder \<Rightarrow>
             (case on_store
                     (ns_createFolder (nodeService this)
                        (folder_metadata authCtx parentFolder metadata)) w of
                (Inr node, w') \<Rightarrow>
                  (Inr node,
                   DomainEvents_notify (NodeCreatedEvent (email (principal authCtx)) node) w')
              | (Inl e, w') \<Rightarrow> (Inl e, w'))))"

definition getFolder :: "AuthContextProvider \<Rightarrow> Node \<Rightarrow> AntboxError + Node" where
  "getFolder authCtx folder =
     (case assertCanRead authCtx folder of Inl e \<Rightarrow> Inl e | Inr _ \<Rightarrow> Inr folder)"

definition get ::
  "'st AntboxService \<Rightarrow> AuthContextProvider \<Rightarrow> string \<Rightarrow> 'st World \<Rightarrow> AntboxError + Node" where
  "get this authCtx u w =
     (case ns_get (nodeService this) u (store w) of
        Inl e \<Rightarrow> Inl e
      | Inr node \<Rightarrow>
          if isFolder node then getFolder authCtx node
          else (case getFolderWithPermission this authCtx (parent node) Read w of
                  Inl e \<Rightarrow> Inl e
                | Inr _ \<Rightarrow> Inr node))"

text \<open>
  The test \<^verbatim>\<open>if (metadata.parent)\<close> of \<^verbatim>\<open>update\<close> and \<^verbatim>\<open>updateFolder\<close>, with the
  check of the destination it guards: the branch is taken when the field is truthy, that is
  present and not the empty string, and it fails when the destination cannot be resolved as
  a folder the caller may write to.
\<close>

definition newParentRefused ::
  "'st AntboxService \<Rightarrow> AuthContextProvider \<Rightarrow> Metadata \<Rightarrow> 'st World \<Rightarrow> bool" where
  "newParentRefused this authCtx metadata w =
     (case m_parent metadata of
        None \<Rightarrow> False
      | Some u \<Rightarrow> u \<noteq> [] \<and> isl (getFolderWithPermission this authCtx u Write w))"

definition updateFolder ::
  "'st AntboxService \<Rightarrow> AuthContextProvider \<Rightarrow> Node \<Rightarrow> Metadata \<Rightarrow> 'st World
     \<Rightarrow> (AntboxError + unit) \<times> 'st World" where
  "updateFolder this authCtx folder metadata w =
     (case assertCanWrite authCtx folder of
        Inl e \<Rightarrow> (Inl e, w)
      | Inr _ \<Rightarrow>
          if newParentRefused this authCtx metadata w then (Inl ForbiddenError, w)
          else
            (case on_store (ns_update (nodeService this) (uuid folder) metadata None) w of
               (Inr v, w') \<Rightarrow>
                 (Inr v,
                  DomainEvents_notify (NodeUpdatedEvent (owner folder) (uuid folder) metadata) w')
             | (Inl e, w') \<Rightarrow> (Inl e, w')))"

definition update ::
  "'st AntboxService \<Rightarrow> AuthContextProvider \<Rightarrow> string \<Rightarrow> Metadata \<Rightarrow> bool option \<Rightarrow> 'st World
     \<Rightarrow> (AntboxError + unit) \<times> 'st World" where
  "update this authCtx u metadata merge w =
     (case ns_get (nodeService this) u (store w) of
        Inl e \<Rightarrow> (Inl e, w)
      | Inr node \<Rightarrow>
          if isFolder node then updateFolder this authCtx node metadata w
          else
            (case getFolderWithPermission this authCtx (parent node) Write w of
               Inl _ \<Rightarrow> (Inl ForbiddenError, w)
             | Inr _ \<Rightarrow>
                 if newParentRefused this authCtx metadata w then (Inl ForbiddenError, w)
                 else
                   (case on_store (ns_update (nodeService this) u metadata merge) w of
                      (Inr v, w') \<Rightarrow>
                        (Inr v,
                         DomainEvents_notify
                           (NodeUpdatedEvent (email (principal authCtx)) u metadata) w')
                    | (Inl e, w') \<Rightarrow> (Inl e, w'))))"

definition copy ::
  "'st AntboxService \<Rightarrow> AuthContextProvider \<Rightarrow> string \<Rightarrow> string \<Rightarrow> 'st World
     \<Rightarrow> (AntboxError + Node) \<times> 'st World" where
  "copy this authCtx u dest w =
     (case getFolderWithPermission this authCtx dest Write w of
        Inl e \<Rightarrow> (Inl e, w)
      | Inr _ \<Rightarrow>
          (case get this authCtx u w of
             Inl e \<Rightarrow> (Inl e, w)
           | Inr _ \<Rightarrow>
               (case on_store (ns_copy (nodeService this) u dest) w of
                  (Inr node, w') \<Rightarrow>
                    (Inr node,
                     DomainEvents_notify (NodeCreatedEvent (email (principal authCtx)) node) w')
                | (Inl e, w') \<Rightarrow> (Inl e, w'))))"

definition duplicate ::
  "'st AntboxService \<Rightarrow> AuthContextProvider \<Rightarrow> string \<Rightarrow> 'st World
     \<Rightarrow> (AntboxError + Node) \<times> 'st World" where
  "duplicate this authCtx u w =
     (case get this authCtx u w of
        Inl e \<Rightarrow> (Inl e, w)
      | Inr node \<Rightarrow>
          (case getFolderWithPermission this authCtx (parent node) Write w of
             Inl e \<Rightarrow> (Inl e, w)
           | Inr _ \<Rightarrow> on_store (ns_duplicate (nodeService this) u) w))"

definition updateFile ::
  "'st AntboxService \<Rightarrow> AuthContextProvider \<Rightarrow> string \<Rightarrow> FileContent \<Rightarrow> 'st World
     \<Rightarrow> (AntboxError + unit) \<times> 'st World" where
  "updateFile this authCtx u file w =
     (if isSystemFolder (Some u)
      then (Inl (BadRequestError ''Cannot update system folder''), w)
      else
        (case on_store (ns_updateFile (nodeService this) u file) w of
           (Inr v, w') \<Rightarrow>
             (Inr v,
              DomainEvents_notify (NodeContentUpdatedEvent (email (principal authCtx)) u) w')
         | (Inl e, w') \<Rightarrow> (Inl e, w')))"

definition delete ::
  "'st AntboxService \<Rightarrow> AuthContextProvider \<Rightarrow> string \<Rightarrow> 'st World
     \<Rightarrow> (AntboxError + unit) \<times> 'st World" where
  "delete this authCtx u w =
     (case ns_get (nodeService this) u (store w) of
        Inl e \<Rightarrow> (Inl e, w)
      | Inr node \<Rightarrow>
          if isFolder node \<and> isl (assertCanWrite authCtx node) then (Inl ForbiddenError, w)
          else
            (case getFolderWithPermission this authCtx (parent node) Write w of
               Inl e \<Rightarrow> (Inl e, w)
             | Inr _ \<Rightarrow>
                 (case on_store (ns_delete (nodeService this) u) w of
                    (Inr v, w') \<Rightarrow>
                      (Inr v,
                       DomainEvents_notify (NodeDeletedEvent (email (principal authCtx)) u) w')
                  | (Inl e, w') \<Rightarrow> (Inl e, w'))))"

section \<open>Running an action\<close>

text \<open>
  \<^verbatim>\<open>ActionService.run\<close>, of the class \<^verbatim>\<open>ActionService\<close> under src/ whose constructor takes
  an \<^verbatim>\<open>ActionServiceContext\<close>. It is an \<^verbatim>\<open>async\<close> function of type \<^verbatim>\<open>Promise<void>\<close>:
  its promise either resolves or rejects with the value of a \<^verbatim>\<open>throw\<close>. An action's own
  \<^verbatim>\<open>run\<close> resolves to \<^verbatim>\<open>void | Error\<close>, or rejects. The repository's \<^verbatim>\<open>get\<close> is a
  parameter; \<open>None\<close> is the falsy result that the test \<^verbatim>\<open>!action\<close> looks for. Of the run
  context \<^verbatim>\<open>{...this.context, principal}\<close> the model keeps the principal; the types of the
  arguments passed through to the action are left open.
\<close>

datatype JsError = Error string

datatype 'a Outcome = Resolves 'a | Rejects JsError

record ('c, 'x, 'y) Action =
  a_uuid :: string
  a_title :: string
  builtIn :: bool
  multiple :: bool
  aspectConstraints :: "string list"
  mimetypeConstraints :: "string list"
  params :: "string list"
  run :: "'c \<Rightarrow> 'x \<Rightarrow> 'y \<Rightarrow> JsError option Outcome"

record ('c, 'x, 'y) ActionService =
  repository_get :: "string \<Rightarrow> ('c, 'x, 'y) Action option"

definition ActionService_get ::
  "('c, 'x, 'y) ActionService \<Rightarrow> 'c \<Rightarrow> string \<Rightarrow> ('c, 'x, 'y) Action option" where
  "ActionService_get this user u = repository_get this u"

definition ActionService_run ::
  "('c, 'x, 'y) ActionService \<Rightarrow> 'c \<Rightarrow> string \<Rightarrow> 'x \<Rightarrow> 'y \<Rightarrow> unit Outcome" where
  "ActionService_run this user u ps us =
     (case ActionService_get this user u of
        None \<Rightarrow> Rejects (Error (''Action '' @ u @ '' not found''))
      | Some action \<Rightarrow>
          (case run action user ps us of
             Rejects e \<Rightarrow> Rejects e
           | Resolves (Some e) \<Rightarrow> Rejects e
           | Resolves None \<Rightarrow> Resolves ()))"

text \<open>
  \<^verbatim>\<open>AntboxService.runAction\<close> returns what \<^verbatim>\<open>this.actionService.run\<close> returns, passing its
  four arguments on in the order it received them. \<^verbatim>\<open>AntboxService\<close> builds its action
  service with \<^verbatim>\<open>new ActionService(this.nodeService, this)\<close> and calls methods on it that
  the class under src/ does not have, so the \<^verbatim>\<open>run\<close> it calls is not the function above:
  it is not under src/ and is the parameter \<open>actionService_run\<close> here, with any result
  type \<open>'r\<close>.
\<close>

definition runAction ::
  "('c \<Rightarrow> string \<Rightarrow> 'x \<Rightarrow> 'y \<Rightarrow> 'r) \<Rightarrow> 'c \<Rightarrow> string \<Rightarrow> 'x \<Rightarrow> 'y \<Rightarrow> 'r" where
  "runAction actionService_run authCtx u us ps = actionService_run authCtx u us ps"

section \<open>The in-memory node repository\<close>

text \<open>
  \<^verbatim>\<open>InMemoryNodeRepository\<close>: the object \<^verbatim>\<open>db\<close> is the list of its own properties, key
  and node, in the order of their creation.

  \<^verbatim>\<open>Object.values\<close> lists the values of the keys that are array indices first (a canonical
  decimal numeral below \<open>2^32 - 1\<close>: digits only, no leading zero except \<^verbatim>\<open>"0"\<close> itself),
  in ascending numeric order, and then the values of the other keys in the order of their
  creation.
\<close>

type_synonym Db = "(string \<times> Node) list"

definition is_digit :: "char \<Rightarrow> bool" where
  "is_digit c = (c \<in> set ''0123456789'')"

definition index_value :: "string \<Rightarrow> nat" where
  "index_value k = foldl (\<lambda>n c. 10 * n + (of_char c - 48)) 0 k"

definition is_array_index :: "string \<Rightarrow> bool" where
  "is_array_index k =
     (case k of
        [] \<Rightarrow> False
      | c # cs \<Rightarrow>
          list_all is_digit k \<and> (if c = CHR ''0'' then cs = [] else True) \<and>
          index_value k < 2 ^ 32 - 1)"

definition records :: "Db \<Rightarrow> Node list" where
  "records db =
     map snd
       (sort_key (index_value \<circ> fst) (filter (is_array_index \<circ> fst) db) @
        filter (Not \<circ> is_array_index \<circ> fst) db)"

text \<open>
  An assignment \<^verbatim>\<open>db[k] = node\<close> replaces the value of an own key where it stands and
  creates a new own key otherwise, except for the key \<^verbatim>\<open>__proto__\<close>: unless the object has
  an own property of that name, the assignment goes to the setter inherited from
  \<^verbatim>\<open>Object.prototype\<close> and creates no property. (The prototype it sets is not part of the
  model: none of the methods reads an inherited property.) \<^verbatim>\<open>delete\<close> removes an own key
  and always answers \<^verbatim>\<open>right(undefined)\<close>.
\<close>

definition db_assign :: "string \<Rightarrow> Node \<Rightarrow> Db \<Rightarrow> Db" where
  "db_assign k node db =
     (if k = ''__proto__'' \<and> map_of db k = None then db else AList.update k node db)"

definition InMemory_delete :: "string \<Rightarrow> Db \<Rightarrow> (AntboxError + unit) \<times> Db" where
  "InMemory_delete u db = (Inr (), AList.delete u db)"

definition InMemory_add :: "Node \<Rightarrow> Db \<Rightarrow> (AntboxError + unit) \<times> Db" where
  "InMemory_add node db = (Inr (), db_assign (uuid node) node db)"

definition InMemory_update :: "Node \<Rightarrow> Db \<Rightarrow> (AntboxError + unit) \<times> Db" where
  "InMemory_update node db = (Inr (), db_assign (uuid node) node db)"

definition InMemory_getById :: "string \<Rightarrow> Db \<Rightarrow> AntboxError + Node" where
  "InMemory_getById u db =
     (case find (\<lambda>n. uuid n = u) (records db) of
        None \<Rightarrow> Inl (NodeNotFoundError u)
      | Some node \<Rightarrow> Inr node)"

subsection \<open>A node service over the repository\<close>

text \<open>
  Modelled from the spec: \<^verbatim>\<open>NodeService\<close> is not under src/. This instance implements
  the node-store contract of spec section 6 on the in-memory repository, building a node
  from the metadata it is given. It only serves to run the orchestrator on concrete inputs;
  no general theorem depends on it.
\<close>

definition or_default :: "'a \<Rightarrow> 'a option \<Rightarrow> 'a" where
  "or_default d x = (case x of None \<Rightarrow> d | Some v \<Rightarrow> v)"

definition node_of :: "Variant \<Rightarrow> Metadata \<Rightarrow> Node" where
  "node_of v metadata =
     \<lparr>uuid = or_default ''new-uuid'' (m_uuid metadata),
      title = or_default [] (m_title metadata),
      parent = or_default ROOT_FOLDER_UUID (m_parent metadata),
      owner = or_default [] (m_owner metadata),
      n_group = or_default [] (m_group metadata),
      permissions =
        or_default \<lparr>p_group = [], p_authenticated = [], p_anonymous = []\<rparr>
          (m_permissions metadata),
      variant = v\<rparr>"

definition apply_metadata :: "Metadata \<Rightarrow> Node \<Rightarrow> Node" where
  "apply_metadata metadata node =
     \<lparr>uuid = uuid node,
      title = or_default (title node) (m_title metadata),
      parent = or_default (parent node) (m_parent metadata),
      owner = or_default (owner node) (m_owner metadata),
      n_group = or_default (n_group node) (m_group metadata),
      permissions = or_default (permissions node) (m_permissions metadata),
      variant = variant node\<rparr>"

definition mem_create :: "Variant \<Rightarrow> Metadata \<Rightarrow> Db \<Rightarrow> (AntboxError + Node) \<times> Db" where
  "mem_create v metadata db =
     (Inr (node_of v metadata), snd (InMemory_add (node_of v metadata) db))"

definition mem_update ::
  "string \<Rightarrow> Metadata \<Rightarrow> bool option \<Rightarrow> Db \<Rightarrow> (AntboxError + unit) \<times> Db" where
  "mem_update u metadata merge db =
     (case InMemory_getById u db of
        Inl e \<Rightarrow> (Inl e, db)
      | Inr node \<Rightarrow> InMemory_update (apply_metadata metadata node) db)"

definition mem_updateFile :: "string \<Rightarrow> FileContent \<Rightarrow> Db \<Rightarrow> (AntboxError + unit) \<times> Db" where
  "mem_updateFile u file db =
     (case InMemory_getById u db of Inl e \<Rightarrow> (Inl e, db) | Inr _ \<Rightarrow> (Inr (), db))"

definition mem_copy :: "string \<Rightarrow> string \<Rightarrow> Db \<Rightarrow> (AntboxError + Node) \<times> Db" where
  "mem_copy u dest db =
     (case InMemory_getById u db of
        Inl e \<Rightarrow> (Inl e, db)
      | Inr node \<Rightarrow>
          (Inr (node\<lparr>uuid := uuid node @ ''-copy'', parent := dest\<rparr>),
           snd (InMemory_add (node\<lparr>uuid := uuid node @ ''-copy'', parent := dest\<rparr>) db)))"

definition mem_duplicate :: "string \<Rightarrow> Db \<Rightarrow> (AntboxError + Node) \<times> Db" where
  "mem_duplicate u db =
     (case InMemory_getById u db of
        Inl e \<Rightarrow> (Inl e, db)
      | Inr node \<Rightarrow> mem_copy u (parent node) db)"

definition mem_delete :: "string \<Rightarrow> Db \<Rightarrow> (AntboxError + unit) \<times> Db" where
  "mem_delete u db =
     (case InMemory_getById u db of
        Inl e \<Rightarrow> (Inl e, db)
      | Inr _ \<Rightarrow> InMemory_delete u db)"

definition mem_NodeService :: "Db NodeService" where
  "mem_NodeService =
     \<lparr>ns_get = InMemory_getById,
      ns_createFile = (\<lambda>file. mem_create File),
      ns_createMetanode = mem_create Metanode,
      ns_createFolder = mem_create Folder,
      ns_update = mem_update,
      ns_updateFile = mem_updateFile,
      ns_copy = mem_copy,
      ns_duplicate = mem_duplicate,
      ns_delete = mem_delete\<rparr>"

definition mem_AntboxService :: "Db AntboxService" where
  "mem_AntboxService =
     \<lparr>nodeService = mem_NodeService,
      actionService_createOrReplace = (\<lambda>file. mem_create File),
      aspectService_createOrReplace = (\<lambda>file. mem_create File),
      extService_createOrReplace = (\<lambda>file. mem_create File)\<rparr>"

subsection \<open>A small repository and four callers\<close>

definition no_permissions :: Permissions where
  "no_permissions = \<lparr>p_group = [], p_authenticated = [], p_anonymous = []\<rparr>"

definition alice :: AuthContextProvider where
  "alice =
     \<lparr>principal =
        \<lparr>email = ''alice@example.com'', group = ''eng'', groups = [''eng''],
         isAdmin = False\<rparr>\<rparr>"

definition bob :: AuthContextProvider where
  "bob =
     \<lparr>principal =
        \<lparr>email = ''bob@example.com'', group = ''eng'', groups = [''eng''],
         isAdmin = False\<rparr>\<rparr>"

definition carol :: AuthContextProvider where
  "carol =
     \<lparr>principal =
        \<lparr>email = ''carol@example.com'', group = ''ops'', groups = [''ops''],
         isAdmin = False\<rparr>\<rparr>"

definition root_user :: AuthContextProvider where
  "root_user =
     \<lparr>principal =
        \<lparr>email = ''root@antbox.io'', group = ''--admins--'', groups = [''--admins--''],
         isAdmin = True\<rparr>\<rparr>"

definition root_folder :: Node where
  "root_folder =
     \<lparr>uuid = ROOT_FOLDER_UUID, title = ''Root'', parent = ROOT_FOLDER_UUID,
      owner = ''alice@example.com'', n_group = ''--admins--'',
      permissions = no_permissions, variant = Folder\<rparr>"

definition system_folder :: Node where
  "system_folder =
     \<lparr>uuid = SYSTEM_FOLDER_UUID, title = ''System'', parent = ROOT_FOLDER_UUID,
      owner = ''root@antbox.io'', n_group = ''--admins--'',
      permissions = no_permissions, variant = Folder\<rparr>"

definition folder_F :: Node where
  "folder_F =
     \<lparr>uuid = ''F'', title = ''F'', parent = ROOT_FOLDER_UUID,
      owner = ''alice@example.com'', n_group = ''eng'',
      permissions = \<lparr>p_group = [Read], p_authenticated = [], p_anonymous = []\<rparr>,
      variant = Folder\<rparr>"

definition folder_G :: Node where
  "folder_G =
     \<lparr>uuid = ''G'', title = ''G'', parent = ROOT_FOLDER_UUID,
      owner = ''carol@example.com'', n_group = ''ops'',
      permissions = no_permissions, variant = Folder\<rparr>"

definition file_N :: Node where
  "file_N =
     \<lparr>uuid = ''N'', title = ''N'', parent = ''F'',
      owner = ''alice@example.com'', n_group = ''eng'',
      permissions = no_permissions, variant = File\<rparr>"

definition file_orphan :: Node where
  "file_orphan =
     \<lparr>uuid = ''O'', title = ''O'', parent = ''gone'',
      owner = ''alice@example.com'', n_group = ''eng'',
      permissions = no_permissions, variant = File\<rparr>"

definition file_under_file :: Node where
  "file_under_file =
     \<lparr>uuid = ''P'', title = ''P'', parent = ''N'',
      owner = ''alice@example.com'', n_group = ''eng'',
      permissions = no_permissions, variant = File\<rparr>"

definition example_db :: Db where
  "example_db =
     [(ROOT_FOLDER_UUID, root_folder), (SYSTEM_FOLDER_UUID, system_folder),
      (''F'', folder_F), (''G'', folder_G), (''N'', file_N), (''O'', file_orphan),
      (''P'', file_under_file)]"

definition example_world :: "Db World" where
  "example_world = \<lparr>store = example_db, events = []\<rparr>"

definition no_metadata :: Metadata where
  "no_metadata =
     \<lparr>m_uuid = None, m_title = None, m_parent = None, m_owner = None, m_group = None,
      m_permissions = None, m_variant = None\<rparr>"

definition no_actions :: "(UserPrincipal, (string \<times> string) list, string list) ActionService" where
  "no_actions = \<lparr>repository_get = (\<lambda>u. None)\<rparr>"

text \<open>
  A folder whose UUID is the empty string, owned by \<open>carol\<close> and granting nothing; the
  repository with this folder added; and metadata that name the empty string as the new
  parent.
\<close>

definition folder_E :: Node where
  "folder_E =
     \<lparr>uuid = [], title = ''E'', parent = ROOT_FOLDER_UUID,
      owner = ''carol@example.com'', n_group = ''ops'',
      permissions = no_permissions, variant = Folder\<rparr>"

definition example_world_E :: "Db World" where
  "example_world_E = \<lparr>store = example_db @ [([], folder_E)], events = []\<rparr>"

definition move_to_empty_uuid :: Metadata where
  "move_to_empty_uuid = no_metadata\<lparr>m_parent := Some []\<rparr>"

text \<open>Metadata for a new folder under \<open>F\<close> whose caller names another owner, the
  administrators' group and a permission set open to everyone; and the folder that
  \<^verbatim>\<open>createFolder\<close> makes of it for \<open>alice\<close>.\<close>

definition mallory_metadata :: Metadata where
  "mallory_metadata =
     no_metadata
       \<lparr>m_uuid := Some ''M'', m_parent := Some ''F'',
        m_owner := Some ''mallory@example.com'', m_group := Some ''--admins--'',
        m_permissions :=
          Some \<lparr>p_group = [], p_authenticated = [], p_anonymous = [Read, Write, Export]\<rparr>\<rparr>"

definition folder_M :: Node where
  "folder_M =
     \<lparr>uuid = ''M'', title = [], parent = ''F'', owner = ''alice@example.com'', n_group = ''eng'',
      permissions = \<lparr>p_group = [Read], p_authenticated = [], p_anonymous = []\<rparr>,
      variant = Folder\<rparr>"

section \<open>Predicates used to state the properties\<close>

text \<open>
  \<open>publishes_only_on_success f w out\<close>: \<open>out\<close> is the outcome of an orchestrator operation
  started in world \<open>w\<close> and \<open>f\<close> the store operation it delegates to. A failed outcome
  leaves the list of published events as it was; and if the list changed, then \<open>f\<close>, run on
  the store of \<open>w\<close>, returned a success, which is the outcome of the operation.
\<close>

definition publishes_only_on_success ::
  "('st \<Rightarrow> (AntboxError + 'a) \<times> 'st) \<Rightarrow> 'st World \<Rightarrow> (AntboxError + 'a) \<times> 'st World \<Rightarrow> bool" where
  "publishes_only_on_success f w out =
     ((isl (fst out) \<longrightarrow> events (snd out) = events w) \<and>
      (events (snd out) \<noteq> events w \<longrightarrow>
         \<not> isl (fst (f (store w))) \<and> fst out = fst (f (store w))))"

text \<open>
  \<open>keeps_folder_metadata ns\<close>: a folder that the store \<open>ns\<close> creates has the owner, the
  group and the permission set of the metadata it was created from, where these are given.
\<close>

definition keeps_folder_metadata :: "'st NodeService \<Rightarrow> bool" where
  "keeps_folder_metadata ns =
     (\<forall>metadata st folder st'.
        ns_createFolder ns metadata st = (Inr folder, st') \<longrightarrow>
          (\<forall>x. m_owner metadata = Some x \<longrightarrow> owner folder = x) \<and>
          (\<forall>x. m_group metadata = Some x \<longrightarrow> n_group folder = x) \<and>
          (\<forall>x. m_permissions metadata = Some x \<longrightarrow> permissions folder = x))"

section \<open>Evaluation on concrete inputs\<close>

lemmas example_defs =
  ROOT_FOLDER_UUID_def SYSTEM_FOLDER_UUID_def ACTIONS_FOLDER_UUID_def ASPECTS_FOLDER_UUID_def
  EXT_FOLDER_UUID_def ANONYMOUS_USER_EMAIL_def
  alice_def bob_def carol_def root_user_def root_folder_def system_folder_def folder_F_def folder_G_def
  file_N_def file_orphan_def file_under_file_def example_db_def example_world_def
  no_metadata_def no_permissions_def no_actions_def folder_E_def example_world_E_def
  move_to_empty_uuid_def

lemmas mem_defs =
  mem_AntboxService_def mem_NodeService_def mem_create_def mem_update_def mem_updateFile_def
  mem_copy_def mem_duplicate_def mem_delete_def node_of_def apply_metadata_def or_default_def
  InMemory_getById_def InMemory_add_def InMemory_update_def InMemory_delete_def records_def
  db_assign_def is_array_index_def is_digit_def index_value_def

lemmas guard_defs =
  assertPermission_def assertCanRead_def assertCanWrite_def isFolder_def isRootFolder_def
  User_isAdmin_def

section \<open>The permission guard is the ladder\<close>

lemma evaluate_unfold:
  "evaluate p node cap =
     (if \<not> isFolder node then Granted
      else if isAdmin p then Granted
      else if isRootFolder node \<and> cap = Read then Granted
      else if isRootFolder node then Denied
      else if email p = owner node then Granted
      else if cap \<in> set (p_anonymous (permissions node)) then Granted
      else if n_group node \<in> set (groups p) \<and> cap \<in> set (p_group (permissions node))
      then Granted
      else if email p \<noteq> ANONYMOUS_USER_EMAIL \<and>
              cap \<in> set (p_authenticated (permissions node))
      then Granted
      else Denied)"
  by (simp add: evaluate_def ladder_def rule_not_folder_def rule_admin_def rule_root_read_def
      rule_root_other_def rule_owner_def rule_anonymous_def rule_group_def
      rule_authenticated_def rule_otherwise_def)

text \<open>
  C1. For every principal, node and capability, \<^verbatim>\<open>#assertPermission\<close> answers what the
  nine-rule ladder of spec section 4.1 answers when its rules are tried in order and the
  first that matches decides: \<^verbatim>\<open>right\<close> where the ladder says Granted, a
  \<^verbatim>\<open>ForbiddenError\<close> where it says Denied.
\<close>

theorem assertPermission_is_ladder:
  "assertPermission authCtx node cap =
     (case evaluate (principal authCtx) node cap of
        Granted \<Rightarrow> Inr ()
      | Denied \<Rightarrow> Inl ForbiddenError)"
  unfolding evaluate_unfold by (auto simp: assertPermission_def User_isAdmin_def Let_def)

section \<open>Owners\<close>

text \<open>
  C2, as stated, fails on the Root folder: a caller who is not an administrator and whose
  email is the owner of the Root folder is refused \<open>Write\<close> on it, because the Root rule
  is tried before the owner rule.
\<close>

theorem owner_of_root_denied_write:
  "\<not> User_isAdmin (principal alice) \<and> isFolder root_folder \<and>
   email (principal alice) = owner root_folder \<and>
   assertPermission alice root_folder Write = Inl ForbiddenError"
  by (simp add: guard_defs example_defs)

text \<open>
  C2, amended. For every principal who is not an administrator, every folder other than the
  Root folder whose owner is the principal's email, and every capability, the decision is
  Granted, whatever the folder's permission set is.
\<close>

theorem owner_granted_below_root:
  assumes "\<not> User_isAdmin (principal authCtx)"
    and "isFolder f" and "\<not> isRootFolder f"
    and "email (principal authCtx) = owner f"
  shows "assertPermission authCtx (f\<lparr>permissions := ps\<rparr>) cap = Inr ()"
  using assms by (simp add: assertPermission_def isFolder_def isRootFolder_def Let_def)

theorem owner_granted_below_root_witness:
  "\<not> User_isAdmin (principal alice) \<and> isFolder folder_F \<and> \<not> isRootFolder folder_F \<and>
   email (principal alice) = owner folder_F \<and>
   assertPermission alice (folder_F\<lparr>permissions := no_permissions\<rparr>) Write = Inr ()"
proof -
  have h: "\<not> User_isAdmin (principal alice)" "isFolder folder_F" "\<not> isRootFolder folder_F"
    "email (principal alice) = owner folder_F"
    by (simp_all add: guard_defs example_defs)
  show ?thesis using h owner_granted_below_root [OF h, of no_permissions Write] by simp
qed

section \<open>Monotonicity of the grant sets\<close>

lemma grants_monotonic_superset:
  assumes "assertPermission authCtx f cap = Inr ()"
    and "set (p_anonymous (permissions f)) \<subseteq> set (p_anonymous ps)"
    and "set (p_group (permissions f)) \<subseteq> set (p_group ps)"
    and "set (p_authenticated (permissions f)) \<subseteq> set (p_authenticated ps)"
  shows "assertPermission authCtx (f\<lparr>permissions := ps\<rparr>) cap = Inr ()"
  using assms
  by (auto simp: assertPermission_def isFolder_def isRootFolder_def Let_def split: if_splits)

text \<open>
  C3. If the decision for a principal, a folder and a capability is Granted, it is still
  Granted after any capabilities \<open>gs\<close>, \<open>as\<close> and \<open>ns\<close> have been added to the
  \<open>group\<close>, \<open>authenticated\<close> and \<open>anonymous\<close> sets of the folder's permission set
  (one capability added to one set is the case of a singleton and two empty lists).
\<close>

theorem grants_monotonic:
  assumes "assertPermission authCtx f cap = Inr ()"
  shows "assertPermission authCtx
           (f\<lparr>permissions :=
                \<lparr>p_group = p_group (permissions f) @ gs,
                 p_authenticated = p_authenticated (permissions f) @ as,
                 p_anonymous = p_anonymous (permissions f) @ ns\<rparr>\<rparr>) cap = Inr ()"
  using assms by (intro grants_monotonic_superset) simp_all

theorem grants_monotonic_witness:
  "assertPermission bob folder_F Read = Inr () \<and>
   assertPermission bob
     (folder_F\<lparr>permissions :=
        \<lparr>p_group = [Read, Export], p_authenticated = [Write], p_anonymous = [Write]\<rparr>\<rparr>) Read
     = Inr ()"
proof -
  have g: "assertPermission bob folder_F Read = Inr ()"
    by (simp add: guard_defs example_defs)
  have p: "\<lparr>p_group = p_group (permissions folder_F) @ [Export],
            p_authenticated = p_authenticated (permissions folder_F) @ [Write],
            p_anonymous = p_anonymous (permissions folder_F) @ [Write]\<rparr>
           = \<lparr>p_group = [Read, Export], p_authenticated = [Write], p_anonymous = [Write]\<rparr>"
    by (simp add: folder_F_def)
  show ?thesis
    using g grants_monotonic [OF g, of "[Export]" "[Write]" "[Write]"] unfolding p by simp
qed

section \<open>Events follow successful store operations\<close>

lemmas op_defs = on_store_def DomainEvents_notify_def publishes_only_on_success_def

lemma createFile_publishes:
  "publishes_only_on_success (ns_createFile (nodeService this) file metadata) w
     (createFile this authCtx file metadata w)"
  by (auto simp: createFile_def op_defs split: sum.splits prod.splits)

lemma createMetanode_publishes:
  "publishes_only_on_success (ns_createMetanode (nodeService this) metadata) w
     (createMetanode this authCtx metadata w)"
  by (auto simp: createMetanode_def op_defs split: sum.splits prod.splits)

lemma createFolder_publishes:
  "\<exists>parentFolder.
     publishes_only_on_success
       (ns_createFolder (nodeService this) (folder_metadata authCtx parentFolder metadata)) w
       (createFolder this authCtx metadata w)"
proof (cases "getFolderWithPermission this authCtx (parent_or_root metadata) Write w")
  case (Inl e)
  then show ?thesis by (simp add: createFolder_def op_defs)
next
  case (Inr parentFolder)
  then have "publishes_only_on_success
       (ns_createFolder (nodeService this) (folder_metadata authCtx parentFolder metadata)) w
       (createFolder this authCtx metadata w)"
    by (auto simp: createFolder_def op_defs split: sum.splits prod.splits)
  then show ?thesis by blast
qed

lemma updateFolder_publishes:
  "publishes_only_on_success (ns_update (nodeService this) (uuid folder) metadata None) w
     (updateFolder this authCtx folder metadata w)"
  by (auto simp: updateFolder_def op_defs split: sum.splits prod.splits)

lemma update_publishes:
  "\<exists>u' merge'.
     publishes_only_on_success (ns_update (nodeService this) u' metadata merge') w
       (update this authCtx u metadata merge w)"
proof (cases "ns_get (nodeService this) u (store w)")
  case (Inl e)
  then show ?thesis by (simp add: update_def op_defs)
next
  case (Inr node)
  show ?thesis
  proof (cases "isFolder node")
    case True
    with Inr have "update this authCtx u metadata merge w = updateFolder this authCtx node metadata w"
      by (simp add: update_def)
    then show ?thesis using updateFolder_publishes [of this node metadata w authCtx] by auto
  next
    case False
    with Inr have "publishes_only_on_success (ns_update (nodeService this) u metadata merge) w
       (update this authCtx u metadata merge w)"
      by (auto simp: update_def op_defs split: sum.splits prod.splits)
    then show ?thesis by blast
  qed
qed

lemma updateFile_publishes:
  "publishes_only_on_success (ns_updateFile (nodeService this) u file) w
     (updateFile this authCtx u file w)"
  by (auto simp: updateFile_def op_defs split: sum.splits prod.splits)

lemma copy_publishes:
  "publishes_only_on_success (ns_copy (nodeService this) u dest) w
     (copy this authCtx u dest w)"
  by (auto simp: copy_def op_defs split: sum.splits prod.splits)

lemma delete_publishes:
  "publishes_only_on_success (ns_delete (nodeService this) u) w
     (delete this authCtx u w)"
  by (auto simp: delete_def op_defs split: sum.splits prod.splits)

text \<open>
  C4. Each mutating operation of the orchestrator (\<^verbatim>\<open>createFile\<close>, \<^verbatim>\<open>createMetanode\<close>,
  \<^verbatim>\<open>createFolder\<close>, \<^verbatim>\<open>update\<close>, \<^verbatim>\<open>updateFolder\<close>, \<^verbatim>\<open>updateFile\<close>, \<^verbatim>\<open>copy\<close>,
  \<^verbatim>\<open>delete\<close>) publishes an event only when the store operation it delegates to has
  returned a success: a failed outcome, from the store or from a permission or lookup check
  before the store is called, leaves the published events as they were, and whenever the
  events changed the store operation ran on the current store and returned the success
  that the operation returns.
\<close>

theorem events_only_after_store_success:
  "publishes_only_on_success (ns_createFile (nodeService this) file metadata) w
     (createFile this authCtx file metadata w) \<and>
   publishes_only_on_success (ns_createMetanode (nodeService this) metadata) w
     (createMetanode this authCtx metadata w) \<and>
   (\<exists>parentFolder.
      publishes_only_on_success
        (ns_createFolder (nodeService this) (folder_metadata authCtx parentFolder metadata)) w
        (createFolder this authCtx metadata w)) \<and>
   (\<exists>u' merge'.
      publishes_only_on_success (ns_update (nodeService this) u' metadata merge') w
        (update this authCtx u metadata merge w)) \<and>
   publishes_only_on_success (ns_update (nodeService this) (uuid folder) metadata None) w
     (updateFolder this authCtx folder metadata w) \<and>
   publishes_only_on_success (ns_updateFile (nodeService this) u file) w
     (updateFile this authCtx u file w) \<and>
   publishes_only_on_success (ns_copy (nodeService this) u dest) w
     (copy this authCtx u dest w) \<and>
   publishes_only_on_success (ns_delete (nodeService this) u) w
     (delete this authCtx u w)"
  by (intro conjI createFile_publishes createMetanode_publishes createFolder_publishes
      update_publishes updateFolder_publishes updateFile_publishes copy_publishes
      delete_publishes)

lemmas orchestrator_defs =
  getFolderWithPermission_def get_def getFolder_def parent_or_root_def newParentRefused_def
  on_store_def DomainEvents_notify_def isSystemFolder_def ActionService_isActionsFolder_def
  AspectService_isAspectsFolder_def ExtService_isExtensionsFolder_def folder_metadata_def

lemma delete_carol_N:
  "delete mem_AntboxService carol ''N'' example_world = (Inl ForbiddenError, example_world)"
  by (simp add: delete_def orchestrator_defs guard_defs mem_defs example_defs)

lemma delete_alice_N:
  "fst (delete mem_AntboxService alice ''N'' example_world) = Inr () \<and>
   events (snd (delete mem_AntboxService alice ''N'' example_world)) =
     [NodeDeletedEvent ''alice@example.com'' ''N'']"
  by (simp add: delete_def orchestrator_defs guard_defs mem_defs example_defs)

theorem events_only_after_store_success_witness:
  "isl (fst (delete mem_AntboxService carol ''N'' example_world)) \<and>
   events (snd (delete mem_AntboxService carol ''N'' example_world)) = events example_world \<and>
   events (snd (delete mem_AntboxService alice ''N'' example_world)) \<noteq> events example_world \<and>
   \<not> isl (fst (ns_delete (nodeService mem_AntboxService) ''N'' (store example_world))) \<and>
   fst (delete mem_AntboxService alice ''N'' example_world) =
     fst (ns_delete (nodeService mem_AntboxService) ''N'' (store example_world))"
proof -
  have c: "isl (fst (delete mem_AntboxService carol ''N'' example_world))"
    by (simp add: delete_carol_N)
  have a: "events (snd (delete mem_AntboxService alice ''N'' example_world))
             \<noteq> events example_world"
    using delete_alice_N by (simp add: example_world_def)
  from events_only_after_store_success
         [where this = mem_AntboxService and authCtx = carol and u = "''N''"
            and w = example_world]
  have "publishes_only_on_success (ns_delete (nodeService mem_AntboxService) ''N'')
          example_world (delete mem_AntboxService carol ''N'' example_world)"
    by blast
  with c have 1: "events (snd (delete mem_AntboxService carol ''N'' example_world))
                    = events example_world"
    by (simp add: publishes_only_on_success_def)
  from events_only_after_store_success
         [where this = mem_AntboxService and authCtx = alice and u = "''N''"
            and w = example_world]
  have "publishes_only_on_success (ns_delete (nodeService mem_AntboxService) ''N'')
          example_world (delete mem_AntboxService alice ''N'' example_world)"
    by blast
  with a have 2:
    "\<not> isl (fst (ns_delete (nodeService mem_AntboxService) ''N'' (store example_world))) \<and>
     fst (delete mem_AntboxService alice ''N'' example_world) =
       fst (ns_delete (nodeService mem_AntboxService) ''N'' (store example_world))"
    by (simp add: publishes_only_on_success_def)
  from c 1 a 2 show ?thesis by blast
qed

section \<open>Duplicating a node\<close>

lemma duplicate_never_publishes:
  "events (snd (duplicate this authCtx u w)) = events w"
  by (auto simp: duplicate_def on_store_def split: sum.splits prod.splits)

text \<open>
  C5 does not hold of the code. \<^verbatim>\<open>duplicate\<close> returns the store's result without a call
  of \<^verbatim>\<open>DomainEvents.notify\<close>: when \<open>alice\<close> duplicates her file \<open>N\<close> the store creates
  the new node \<open>N-copy\<close> beside it and no event is published, while \<^verbatim>\<open>copy\<close> of the same
  file into the same folder publishes a \<^verbatim>\<open>NodeCreatedEvent\<close> for the new node.
\<close>

theorem duplicate_succeeds_without_event:
  "fst (duplicate mem_AntboxService alice ''N'' example_world)
     = Inr (file_N\<lparr>uuid := ''N-copy''\<rparr>) \<and>
   ns_get (nodeService mem_AntboxService) ''N-copy''
     (store (snd (duplicate mem_AntboxService alice ''N'' example_world)))
     = Inr (file_N\<lparr>uuid := ''N-copy''\<rparr>) \<and>
   events (snd (duplicate mem_AntboxService alice ''N'' example_world)) = [] \<and>
   events (snd (copy mem_AntboxService alice ''N'' ''F'' example_world))
     = [NodeCreatedEvent ''alice@example.com'' (file_N\<lparr>uuid := ''N-copy''\<rparr>)]"
  by (simp add: duplicate_def copy_def orchestrator_defs guard_defs mem_defs example_defs)

section \<open>Moving a node to a folder the caller may not write to\<close>




lemma update_empty_parent_calls_store:
  assumes "ns_get (nodeService this) u (store w) = Inr node" and "\<not> isFolder node"
    and "getFolderWithPermission this authCtx (parent node) Write w = Inr parentFolder"
    and "m_parent metadata = Some []"
  shows "fst (update this authCtx u metadata merge w)
           = fst (ns_update (nodeService this) u metadata merge (store w)) \<and>
         store (snd (update this authCtx u metadata merge w))
           = snd (ns_update (nodeService this) u metadata merge (store w))"
  using assms
  by (auto simp: update_def newParentRefused_def on_store_def DomainEvents_notify_def
      split: sum.splits prod.splits)




section \<open>Creating under the System folder\<close>

lemma createFolder_in_system_folder_rejected:
  "isSystemFolder (m_parent metadata) \<Longrightarrow>
   createFolder this authCtx metadata w =
     (Inl (BadRequestError ''Cannot create folders in system folder''), w)"
  by (simp add: createFolder_def)

lemma createMetanode_ignores_system_folder:
  assumes "getFolderWithPermission this authCtx (parent_or_root metadata) Write w = Inr pf"
    and "ns_createMetanode (nodeService this) metadata (store w) = (Inr node, st)"
  shows "createMetanode this authCtx metadata w =
           (Inr node,
            \<lparr>store = st,
             events = events w @ [NodeCreatedEvent (email (principal authCtx)) node]\<rparr>)"
  using assms by (simp add: createMetanode_def on_store_def DomainEvents_notify_def)

text \<open>
  C7 does not hold of the code. \<^verbatim>\<open>createFolder\<close> rejects a parent that
  \<^verbatim>\<open>isSystemFolder\<close> accepts, with a \<^verbatim>\<open>BadRequestError\<close> and before any call of the
  store; \<^verbatim>\<open>createMetanode\<close> has no such test. With the System folder as the requested
  parent, an administrator's \<^verbatim>\<open>createMetanode\<close> succeeds and the new node is in the store
  under the System folder, where \<^verbatim>\<open>createFolder\<close> with the same metadata is rejected.
\<close>

theorem createMetanode_under_system_folder:
  "isSystemFolder (Some SYSTEM_FOLDER_UUID) \<and>
   fst (createMetanode mem_AntboxService root_user
          (no_metadata\<lparr>m_uuid := Some ''M'', m_parent := Some SYSTEM_FOLDER_UUID\<rparr>)
          example_world)
     = Inr (node_of Metanode
              (no_metadata\<lparr>m_uuid := Some ''M'', m_parent := Some SYSTEM_FOLDER_UUID\<rparr>)) \<and>
   ns_get (nodeService mem_AntboxService) ''M''
     (store (snd (createMetanode mem_AntboxService root_user
                    (no_metadata\<lparr>m_uuid := Some ''M'', m_parent := Some SYSTEM_FOLDER_UUID\<rparr>)
                    example_world)))
     = Inr (node_of Metanode
              (no_metadata\<lparr>m_uuid := Some ''M'', m_parent := Some SYSTEM_FOLDER_UUID\<rparr>)) \<and>
   parent (node_of Metanode
             (no_metadata\<lparr>m_uuid := Some ''M'', m_parent := Some SYSTEM_FOLDER_UUID\<rparr>))
     = SYSTEM_FOLDER_UUID \<and>
   fst (createFolder mem_AntboxService root_user
          (no_metadata\<lparr>m_uuid := Some ''M'', m_parent := Some SYSTEM_FOLDER_UUID\<rparr>)
          example_world)
     = Inl (BadRequestError ''Cannot create folders in system folder'')"
  by (simp add: createMetanode_def createFolder_def orchestrator_defs guard_defs mem_defs
      example_defs)

section \<open>Running an action that does not exist\<close>

lemma ActionService_run_outcome:
  "(repository_get this u = None \<longrightarrow>
      ActionService_run this user u ps us = Rejects (Error (''Action '' @ u @ '' not found''))) \<and>
   (ActionService_run this user u ps us = Resolves () \<longleftrightarrow>
      (\<exists>action. repository_get this u = Some action \<and>
                run action user ps us = Resolves None))"
  by (auto simp: ActionService_run_def ActionService_get_def
      split: option.splits Outcome.splits)

lemma runAction_returns_what_run_returns:
  "runAction actionService_run authCtx u us ps = actionService_run authCtx u us ps"
  by (simp add: runAction_def)


section \<open>Owner, group and permissions of a new folder\<close>

lemma folder_metadata_overrides:
  "folder_metadata authCtx pf (metadata\<lparr>m_owner := x, m_group := y, m_permissions := z\<rparr>)
     = folder_metadata authCtx pf metadata"
  by (simp add: folder_metadata_def)

lemma createFolder_call:
  assumes "createFolder this authCtx metadata w = (Inr folder, w')"
  shows "\<exists>pf. getFolderWithPermission this authCtx (parent_or_root metadata) Write w = Inr pf \<and>
          ns_createFolder (nodeService this) (folder_metadata authCtx pf metadata) (store w)
            = (Inr folder, store w')"
  using assms
  by (auto simp: createFolder_def on_store_def DomainEvents_notify_def
      split: if_splits sum.splits prod.splits)

text \<open>
  C9. When \<^verbatim>\<open>createFolder\<close> succeeds, the parent folder was resolved with \<open>Write\<close>
  granted and the store was asked to create the folder from the caller's metadata with
  \<open>owner\<close> set to the caller's email, \<open>group\<close> to the caller's group and
  \<open>permissions\<close> to the parent's permission set; so, on a store that creates a folder with
  the owner, group and permissions it is given, the created folder has exactly these. What
  the caller supplied for the three fields has no influence on the call.
\<close>

theorem createFolder_owner_group_permissions:
  assumes "keeps_folder_metadata (nodeService this)"
    and "createFolder this authCtx metadata w = (Inr folder, w')"
  shows "(\<exists>parentFolder.
            getFolderWithPermission this authCtx (parent_or_root metadata) Write w
              = Inr parentFolder \<and>
            ns_createFolder (nodeService this)
               (metadata\<lparr>m_owner := Some (email (principal authCtx)),
                         m_group := Some (group (principal authCtx)),
                         m_permissions := Some (permissions parentFolder)\<rparr>) (store w)
              = (Inr folder, store w') \<and>
            owner folder = email (principal authCtx) \<and>
            n_group folder = group (principal authCtx) \<and>
            permissions folder = permissions parentFolder) \<and>
         createFolder this authCtx (metadata\<lparr>m_owner := x, m_group := y, m_permissions := z\<rparr>) w
           = createFolder this authCtx metadata w"
proof -
  from createFolder_call [OF assms(2)] obtain pf where
    pf: "getFolderWithPermission this authCtx (parent_or_root metadata) Write w = Inr pf"
    and call: "ns_createFolder (nodeService this) (folder_metadata authCtx pf metadata) (store w)
                 = (Inr folder, store w')"
    by blast
  from assms(1) call have
    "owner folder = email (principal authCtx) \<and> n_group folder = group (principal authCtx) \<and>
     permissions folder = permissions pf"
    unfolding keeps_folder_metadata_def
    by (fastforce simp: folder_metadata_def)
  with pf call have 1: "\<exists>parentFolder.
            getFolderWithPermission this authCtx (parent_or_root metadata) Write w
              = Inr parentFolder \<and>
            ns_createFolder (nodeService this)
               (metadata\<lparr>m_owner := Some (email (principal authCtx)),
                         m_group := Some (group (principal authCtx)),
                         m_permissions := Some (permissions parentFolder)\<rparr>) (store w)
              = (Inr folder, store w') \<and>
            owner folder = email (principal authCtx) \<and>
            n_group folder = group (principal authCtx) \<and>
            permissions folder = permissions parentFolder"
    by (auto simp: folder_metadata_def)
  have 2: "createFolder this authCtx (metadata\<lparr>m_owner := x, m_group := y, m_permissions := z\<rparr>) w
           = createFolder this authCtx metadata w"
    by (simp add: createFolder_def folder_metadata_overrides parent_or_root_def
        cong: sum.case_cong)
  from 1 2 show ?thesis by blast
qed

lemma mem_keeps_folder_metadata: "keeps_folder_metadata (nodeService mem_AntboxService)"
  by (auto simp: keeps_folder_metadata_def mem_defs)

lemma createFolder_alice_M:
  "createFolder mem_AntboxService alice mallory_metadata example_world
     = (Inr folder_M,
        \<lparr>store = example_db @ [(''M'', folder_M)],
         events = [NodeCreatedEvent ''alice@example.com'' folder_M]\<rparr>)"
  by (simp add: createFolder_def orchestrator_defs guard_defs mem_defs example_defs
      mallory_metadata_def folder_M_def)

theorem createFolder_owner_group_permissions_witness:
  "keeps_folder_metadata (nodeService mem_AntboxService) \<and>
   fst (createFolder mem_AntboxService alice mallory_metadata example_world) = Inr folder_M \<and>
   m_owner mallory_metadata = Some ''mallory@example.com'' \<and>
   owner folder_M = email (principal alice) \<and>
   n_group folder_M = group (principal alice) \<and>
   permissions folder_M = permissions folder_F"
proof -
  from createFolder_owner_group_permissions [OF mem_keeps_folder_metadata createFolder_alice_M]
  have "owner folder_M = email (principal alice) \<and> n_group folder_M = group (principal alice)"
    by blast
  moreover have "permissions folder_M = permissions folder_F"
    by (simp add: folder_M_def folder_F_def)
  moreover have "m_owner mallory_metadata = Some ''mallory@example.com''"
    by (simp add: mallory_metadata_def no_metadata_def)
  ultimately show ?thesis
    using mem_keeps_folder_metadata createFolder_alice_M by simp
qed

section \<open>Failures on the parent of an updated node are reported as Forbidden\<close>







end
